theory Spec2Isabelle
  imports Complex_Main "HOL-Library.Sublist"
begin

section \<open>JavaScript values used by the dashboard\<close>

text \<open>
  A JavaScript number is modelled as an exact rational extended with the three special
  values. Rounding to binary64 and overflow to Infinity are not modelled; signed zero is
  identified with zero (the only test the code makes on a number is its truthiness).
\<close>

datatype jsnum = NaN | PosInfinity | NegInfinity | Finite rat

text \<open>
  The values that can appear in a row of a response, as a property of the accumulator
  object of \<^verbatim>\<open>processSalesByRegionData\<close>, or in a chart. A row holds
  strings, numbers or null; reading an absent key gives undefined. The last two
  constructors are what a property read on a plain object literal finds on
  \<^verbatim>\<open>Object.prototype\<close>: one of its built-in functions, or (under the key
  \<^verbatim>\<open>__proto__\<close>) the prototype object itself.
\<close>

datatype jsval =
    JUndefined
  | JNull
  | JNumber jsnum
  | JString string
  | JNativeFunction string
  | JObjectPrototype

text \<open>
  Library behaviour that the repository does not define and that depends on the engine
  or the locale is taken as a parameter: the decimal rendering of a finite number,
  the source text printed for a built-in function, and
  \<^verbatim>\<open>new Date(v).toLocaleDateString('en-US', {month: 'short', year: 'numeric'})\<close>.
  None of them throws.
\<close>

record js_env =
  finiteToString :: "rat \<Rightarrow> string"
  nativeText :: "string \<Rightarrow> string"
  toLocaleDateString :: "jsval \<Rightarrow> string"

definition numberToString :: "js_env \<Rightarrow> jsnum \<Rightarrow> string" where
  "numberToString env n =
     (case n of NaN \<Rightarrow> ''NaN'' | PosInfinity \<Rightarrow> ''Infinity''
      | NegInfinity \<Rightarrow> ''-Infinity'' | Finite r \<Rightarrow> finiteToString env r)"

text \<open>\<^verbatim>\<open>String(v)\<close>, also the conversion of a value to a property key.\<close>

fun js_String :: "js_env \<Rightarrow> jsval \<Rightarrow> string" where
  "js_String env JUndefined = ''undefined''"
| "js_String env JNull = ''null''"
| "js_String env (JNumber n) = numberToString env n"
| "js_String env (JString s) = s"
| "js_String env (JNativeFunction k) = nativeText env k"
| "js_String env JObjectPrototype = ''[object Object]''"

fun num_truthy :: "jsnum \<Rightarrow> bool" where
  "num_truthy NaN = False"
| "num_truthy (Finite r) = (r \<noteq> 0)"
| "num_truthy PosInfinity = True"
| "num_truthy NegInfinity = True"

fun truthy :: "jsval \<Rightarrow> bool" where
  "truthy JUndefined = False"
| "truthy JNull = False"
| "truthy (JNumber n) = num_truthy n"
| "truthy (JString s) = (s \<noteq> [])"
| "truthy (JNativeFunction k) = True"
| "truthy JObjectPrototype = True"

text \<open>The expression \<^verbatim>\<open>x || 0\<close> on a number.\<close>

definition or_zero :: "jsnum \<Rightarrow> jsnum" where
  "or_zero n = (if num_truthy n then n else Finite 0)"

fun num_add :: "jsnum \<Rightarrow> jsnum \<Rightarrow> jsnum" where
  "num_add NaN b = NaN"
| "num_add a NaN = NaN"
| "num_add PosInfinity NegInfinity = NaN"
| "num_add NegInfinity PosInfinity = NaN"
| "num_add PosInfinity b = PosInfinity"
| "num_add NegInfinity b = NegInfinity"
| "num_add (Finite a) PosInfinity = PosInfinity"
| "num_add (Finite a) NegInfinity = NegInfinity"
| "num_add (Finite a) (Finite b) = Finite (a + b)"

text \<open>
  \<^verbatim>\<open>a + n\<close> where the right operand is a number: numeric addition when the left
  operand is a number, undefined or null, string concatenation otherwise (an object or a
  function is first converted to its string).
\<close>

fun js_plus :: "js_env \<Rightarrow> jsval \<Rightarrow> jsnum \<Rightarrow> jsval" where
  "js_plus env (JNumber a) n = JNumber (num_add a n)"
| "js_plus env JUndefined n = JNumber NaN"
| "js_plus env JNull n = JNumber n"
| "js_plus env v n = JString (js_String env v @ numberToString env n)"

subsection \<open>parseFloat\<close>

definition is_digit :: "char \<Rightarrow> bool" where
  "is_digit c = (48 \<le> (of_char c :: int) \<and> (of_char c :: int) \<le> 57)"

definition digit_value :: "char \<Rightarrow> int" where
  "digit_value c = of_char c - 48"

definition digits_value :: "string \<Rightarrow> int" where
  "digits_value ds = foldl (\<lambda>acc c. 10 * acc + digit_value c) 0 ds"

text \<open>White space and line terminators of one byte (tab, LF, VT, FF, CR, space); the
  white space beyond ASCII is not modelled.\<close>

definition is_js_space :: "char \<Rightarrow> bool" where
  "is_js_space c = ((of_char c :: int) \<in> {9, 10, 11, 12, 13, 32})"

text \<open>
  The exponent part after the mantissa: \<^verbatim>\<open>e\<close> or \<^verbatim>\<open>E\<close>, an optional sign and
  at least one digit; anything else is not part of the number and counts as exponent 0.
\<close>

definition exponent_part :: "string \<Rightarrow> int" where
  "exponent_part s =
     (case s of
        [] \<Rightarrow> 0
      | c # t \<Rightarrow>
          if c = CHR ''e'' \<or> c = CHR ''E'' then
            (case t of
               [] \<Rightarrow> 0
             | d # u \<Rightarrow>
                 if d = CHR ''+'' then
                   (if takeWhile is_digit u = [] then 0
                    else digits_value (takeWhile is_digit u))
                 else if d = CHR ''-'' then
                   (if takeWhile is_digit u = [] then 0
                    else - digits_value (takeWhile is_digit u))
                 else
                   (if takeWhile is_digit t = [] then 0
                    else digits_value (takeWhile is_digit t)))
          else 0)"

definition pow10 :: "int \<Rightarrow> rat" where
  "pow10 e = (if 0 \<le> e then 10 ^ nat e else 1 / 10 ^ nat (- e))"

text \<open>The longest prefix that is an unsigned decimal literal, or NaN when there is none.\<close>

definition parse_unsigned :: "string \<Rightarrow> jsnum" where
  "parse_unsigned s =
     (if prefix ''Infinity'' s then PosInfinity
      else
        let ip = takeWhile is_digit s;
            r1 = dropWhile is_digit s;
            fp = (case r1 of
                    [] \<Rightarrow> []
                  | c # t \<Rightarrow> if c = CHR ''.'' then takeWhile is_digit t else []);
            r2 = (case r1 of
                    [] \<Rightarrow> []
                  | c # t \<Rightarrow> if c = CHR ''.'' then dropWhile is_digit t else r1)
        in if ip = [] \<and> fp = [] then NaN
           else Finite ((of_int (digits_value ip)
                         + of_int (digits_value fp) / 10 ^ length fp)
                        * pow10 (exponent_part r2)))"

fun num_negate :: "jsnum \<Rightarrow> jsnum" where
  "num_negate NaN = NaN"
| "num_negate PosInfinity = NegInfinity"
| "num_negate NegInfinity = PosInfinity"
| "num_negate (Finite r) = Finite (- r)"

definition parseFloat :: "string \<Rightarrow> jsnum" where
  "parseFloat s =
     (case dropWhile is_js_space s of
        [] \<Rightarrow> NaN
      | c # t \<Rightarrow>
          if c = CHR ''+'' then parse_unsigned t
          else if c = CHR ''-'' then num_negate (parse_unsigned t)
          else parse_unsigned (c # t))"


section \<open>Types of the Cube API (types/cube.ts)\<close>

record CubeFilter =
  member :: string
  operator :: string
  "values" :: "string list"

datatype date_range = RangeName string | RangeList "string list"

record CubeTimeDimension =
  dimension :: string
  granularity :: "string option"
  dateRange :: "date_range option"

record CubeQuery =
  measures :: "string list option"
  dimensions :: "string list option"
  timeDimensions :: "CubeTimeDimension list option"
  q_filters :: "CubeFilter list option"
  order :: "(string \<times> string) list option"
  limit :: "nat option"
  offset :: "nat option"

text \<open>A row maps field identifiers to values; it is kept as the list of its entries.\<close>

type_synonym CubeDataRow = "(string \<times> jsval) list"

text \<open>\<^verbatim>\<open>row[key]\<close>: undefined when the row has no such key.\<close>

definition row_get :: "CubeDataRow \<Rightarrow> string \<Rightarrow> jsval" where
  "row_get row k = (case map_of row k of None \<Rightarrow> JUndefined | Some v \<Rightarrow> v)"

record CubeAnnotation =
  title :: string
  shortTitle :: string
  ann_type :: string
  format :: "string option"

record annotation_t =
  ann_measures :: "(string \<times> CubeAnnotation) list"
  ann_dimensions :: "(string \<times> CubeAnnotation) list"
  ann_timeDimensions :: "(string \<times> CubeAnnotation) list"

text \<open>
  The body of a response. The normalizers test \<^verbatim>\<open>!response.data\<close>, so the row
  sequence may be missing at run time: \<open>None\<close> stands for undefined or null.
\<close>

record CubeQueryResponse =
  query_of :: CubeQuery
  data :: "CubeDataRow list option"
  annotation :: annotation_t

datatype color = Color string | Colors "string list"

text \<open>
  A chart: labels and data are declared \<^verbatim>\<open>string[]\<close> and \<^verbatim>\<open>number[]\<close>, but the
  normalizers store in them whatever the rows and the accumulator hold, so both are
  lists of values.
\<close>

record dataset =
  label :: string
  ds_data :: "jsval list"
  backgroundColor :: "color option"
  borderColor :: "string option"
  borderWidth :: "nat option"

record ChartData =
  labels :: "jsval list"
  datasets :: "dataset list"

section \<open>Response normalizers (Dashboard.tsx)\<close>

text \<open>The guard \<^verbatim>\<open>!response.data || !response.data.length\<close>.\<close>

definition no_rows :: "CubeQueryResponse \<Rightarrow> bool" where
  "no_rows response = (case data response of None \<Rightarrow> True | Some rows \<Rightarrow> rows = [])"

definition rows_of :: "CubeQueryResponse \<Rightarrow> CubeDataRow list" where
  "rows_of response = (case data response of None \<Rightarrow> [] | Some rows \<Rightarrow> rows)"

text \<open>\<^verbatim>\<open>parseFloat(String(row[key])) || 0\<close>; \<^verbatim>\<open>parseFloat(row[key] as string) || 0\<close>
  is the same, since parseFloat converts its argument to a string first.\<close>

definition parse_field :: "js_env \<Rightarrow> CubeDataRow \<Rightarrow> string \<Rightarrow> jsnum" where
  "parse_field env row k = or_zero (parseFloat (js_String env (row_get row k)))"

definition five_colors :: color where
  "five_colors = Colors [''#FF6384'', ''#36A2EB'', ''#FFCE56'', ''#4BC0C0'', ''#9966FF'']"

definition three_colors :: color where
  "three_colors = Colors [''#FF6384'', ''#36A2EB'', ''#FFCE56'']"

definition revenue_dataset :: "jsval list \<Rightarrow> dataset" where
  "revenue_dataset d =
     \<lparr>label = ''Revenue'', ds_data = d,
      backgroundColor = Some (Color ''rgba(25, 118, 210, 0.1)''),
      borderColor = Some ''#1976d2'', borderWidth = Some 2\<rparr>"

definition plain_dataset :: "string \<Rightarrow> color \<Rightarrow> jsval list \<Rightarrow> dataset" where
  "plain_dataset l c d =
     \<lparr>label = l, ds_data = d, backgroundColor = Some c,
      borderColor = None, borderWidth = None\<rparr>"

definition processSalesOverTimeData :: "js_env \<Rightarrow> CubeQueryResponse \<Rightarrow> ChartData" where
  "processSalesOverTimeData env response =
     (if no_rows response then \<lparr>labels = [], datasets = [revenue_dataset []]\<rparr>
      else
        \<lparr>labels = map (\<lambda>row. JString (toLocaleDateString env
                    (row_get row ''customer_behavior.order_date.month''))) (rows_of response),
         datasets = [revenue_dataset
            (map (\<lambda>row. JNumber (parse_field env row ''customer_behavior.total_revenue''))
                 (rows_of response))]\<rparr>)"

subsection \<open>The accumulator object of processSalesByRegionData\<close>

text \<open>
  \<^verbatim>\<open>regionTotals\<close> is a plain object literal used as a dictionary. Its own properties
  are kept in the order in which \<^verbatim>\<open>Object.keys\<close> and \<^verbatim>\<open>Object.values\<close> list
  them: array indices first, in ascending order, then the other keys in the order of
  their creation.
\<close>

type_synonym js_object = "(string \<times> jsval) list"

definition array_index :: "string \<Rightarrow> int option" where
  "array_index k =
     (if k \<noteq> [] \<and> list_all is_digit k \<and> (k = ''0'' \<or> hd k \<noteq> CHR ''0'')
         \<and> digits_value k < 4294967295
      then Some (digits_value k) else None)"

definition key_before :: "string \<Rightarrow> string \<Rightarrow> bool" where
  "key_before k' k =
     (case array_index k of
        None \<Rightarrow> True
      | Some i \<Rightarrow> (case array_index k' of None \<Rightarrow> False | Some j \<Rightarrow> j < i))"

fun obj_insert :: "string \<Rightarrow> jsval \<Rightarrow> js_object \<Rightarrow> js_object" where
  "obj_insert k v [] = [(k, v)]"
| "obj_insert k v ((k', v') # rest) =
     (if key_before k' k then (k', v') # obj_insert k v rest
      else (k, v) # (k', v') # rest)"

text \<open>The names of the properties every plain object inherits from its prototype.\<close>

definition prototype_functions :: "string list" where
  "prototype_functions =
     [''constructor'', ''hasOwnProperty'', ''isPrototypeOf'', ''propertyIsEnumerable'',
      ''toLocaleString'', ''toString'', ''valueOf'', ''__defineGetter__'',
      ''__defineSetter__'', ''__lookupGetter__'', ''__lookupSetter__'']"

text \<open>\<^verbatim>\<open>obj[k]\<close>: the own property, else what the prototype has under that name.\<close>

definition obj_get :: "js_object \<Rightarrow> string \<Rightarrow> jsval" where
  "obj_get obj k =
     (case map_of obj k of
        Some v \<Rightarrow> v
      | None \<Rightarrow>
          if k = ''__proto__'' then JObjectPrototype
          else if k \<in> set prototype_functions then JNativeFunction k
          else JUndefined)"

text \<open>
  \<^verbatim>\<open>obj[k] = v\<close> for a number or a string \<open>v\<close>. Under the key \<^verbatim>\<open>__proto__\<close> the
  assignment runs the inherited setter, which ignores a value that is neither an
  object nor null and creates no property.
\<close>

definition obj_set :: "js_object \<Rightarrow> string \<Rightarrow> jsval \<Rightarrow> js_object" where
  "obj_set obj k v =
     (if k = ''__proto__'' then obj
      else if k \<in> fst ` set obj then map (\<lambda>(k', v'). if k' = k then (k', v) else (k', v')) obj
      else obj_insert k v obj)"

text \<open>The body of the \<^verbatim>\<open>forEach\<close> callback.\<close>

definition add_region_row :: "js_env \<Rightarrow> js_object \<Rightarrow> CubeDataRow \<Rightarrow> js_object" where
  "add_region_row env regionTotals row =
     (let region = js_String env (row_get row ''customer_behavior.region'');
          amount = parse_field env row ''customer_behavior.total_revenue''
      in if truthy (obj_get regionTotals region)
         then obj_set regionTotals region (js_plus env (obj_get regionTotals region) amount)
         else obj_set regionTotals region (JNumber amount))"

definition processSalesByRegionData :: "js_env \<Rightarrow> CubeQueryResponse \<Rightarrow> ChartData" where
  "processSalesByRegionData env response =
     (if no_rows response
      then \<lparr>labels = [],
            datasets = [plain_dataset ''Revenue by Region (LTM)'' five_colors []]\<rparr>
      else
        let regionTotals = foldl (add_region_row env) [] (rows_of response)
        in \<lparr>labels = map (\<lambda>(k, v). JString k) regionTotals,
            datasets = [plain_dataset ''Revenue by Region (LTM)'' five_colors
                          (map snd regionTotals)]\<rparr>)"

text \<open>The four remaining normalizers differ in the keys they read and in the styling.\<close>

definition processCustomerSegmentsData :: "js_env \<Rightarrow> CubeQueryResponse \<Rightarrow> ChartData" where
  "processCustomerSegmentsData env response =
     (if no_rows response
      then \<lparr>labels = [], datasets = [plain_dataset ''Revenue by Segment'' five_colors []]\<rparr>
      else
        \<lparr>labels = map (\<lambda>row. row_get row ''customer_behavior.customers_segment'')
                      (rows_of response),
         datasets = [plain_dataset ''Revenue by Segment'' five_colors
            (map (\<lambda>row. JNumber (parse_field env row ''customer_behavior.total_revenue''))
                 (rows_of response))]\<rparr>)"

definition processOrderSizeData :: "js_env \<Rightarrow> CubeQueryResponse \<Rightarrow> ChartData" where
  "processOrderSizeData env response =
     (if no_rows response
      then \<lparr>labels = [], datasets = [plain_dataset ''Order Count'' (Color ''#36A2EB'') []]\<rparr>
      else
        \<lparr>labels = map (\<lambda>row. row_get row ''customer_behavior.order_size_category'')
                      (rows_of response),
         datasets = [plain_dataset ''Order Count'' (Color ''#36A2EB'')
            (map (\<lambda>row. JNumber (parse_field env row ''customer_behavior.count''))
                 (rows_of response))]\<rparr>)"

definition processTopBrandsData :: "js_env \<Rightarrow> CubeQueryResponse \<Rightarrow> ChartData" where
  "processTopBrandsData env response =
     (if no_rows response
      then \<lparr>labels = [],
            datasets = [plain_dataset ''Revenue by Brand'' (Color ''#4BC0C0'') []]\<rparr>
      else
        \<lparr>labels = map (\<lambda>row. row_get row ''sales.parts_brand'') (rows_of response),
         datasets = [plain_dataset ''Revenue by Brand'' (Color ''#4BC0C0'')
            (map (\<lambda>row. JNumber (parse_field env row ''sales.total_sales_amount''))
                 (rows_of response))]\<rparr>)"

definition processOrderStatusData :: "js_env \<Rightarrow> CubeQueryResponse \<Rightarrow> ChartData" where
  "processOrderStatusData env response =
     (if no_rows response
      then \<lparr>labels = [], datasets = [plain_dataset ''Orders by Status'' three_colors []]\<rparr>
      else
        \<lparr>labels = map (\<lambda>row. row_get row ''customer_behavior.status'') (rows_of response),
         datasets = [plain_dataset ''Orders by Status'' three_colors
            (map (\<lambda>row. JNumber (parse_field env row ''customer_behavior.count''))
                 (rows_of response))]\<rparr>)"


section \<open>The query client (services/cubeApi.ts)\<close>

text \<open>
  \<^verbatim>\<open>process.env.NAME || default\<close>: the default is taken when the variable is unset
  or empty.
\<close>

definition env_or :: "string option \<Rightarrow> string \<Rightarrow> string" where
  "env_or v d = (case v of None \<Rightarrow> d | Some s \<Rightarrow> if s = [] then d else s)"

definition CUBE_API_URL :: "string option \<Rightarrow> string" where
  "CUBE_API_URL v = env_or v ''YOUR_CUBE_ENDPOINT_HERE''"

definition CUBE_API_TOKEN :: "string option \<Rightarrow> string" where
  "CUBE_API_TOKEN v = env_or v ''YOUR_BEARER_TOKEN_HERE''"

record CubeApiService =
  apiUrl :: string
  token :: string

text \<open>The constructor, given the two environment variables.\<close>

definition new_CubeApiService :: "string option \<Rightarrow> string option \<Rightarrow> CubeApiService" where
  "new_CubeApiService env_url env_token =
     \<lparr>apiUrl = CUBE_API_URL env_url, token = CUBE_API_TOKEN env_token\<rparr>"

definition updateConfig :: "string \<Rightarrow> string \<Rightarrow> CubeApiService \<Rightarrow> CubeApiService" where
  "updateConfig url tok this = this\<lparr>apiUrl := url, token := tok\<rparr>"

definition setToken :: "string \<Rightarrow> CubeApiService \<Rightarrow> CubeApiService" where
  "setToken tok this = this\<lparr>token := tok\<rparr>"

definition isConfigured :: "CubeApiService \<Rightarrow> bool" where
  "isConfigured this =
     (apiUrl this \<noteq> ''YOUR_CUBE_ENDPOINT_HERE'' \<and>
      token this \<noteq> ''YOUR_BEARER_TOKEN_HERE'' \<and>
      length (apiUrl this) > 0 \<and>
      length (token this) > 0)"

text \<open>
  The GET request that \<^verbatim>\<open>query\<close> hands to axios. The query travels URL-encoded in
  the address; here it is kept as the query itself, next to the address and the
  Authorization header.
\<close>

record request =
  req_url :: string
  req_query :: CubeQuery
  req_authorization :: string

text \<open>
  What the catch block reads of a response that came with an error status;
  \<open>data_json\<close> is \<^verbatim>\<open>JSON.stringify(error.response.data)\<close>, which is undefined
  (\<open>None\<close>) when the body is.
\<close>

record axios_response =
  status :: nat
  statusText :: string
  data_json :: "string option"

text \<open>Something thrown inside the try block that is not an axios error.\<close>

datatype caught = CaughtError string | CaughtOther

text \<open>
  How the awaited \<^verbatim>\<open>axios.get\<close> ends: with the body of a successful response, with
  an axios error (which carries a response or, for a network error or a timeout, none,
  and a message), or with something else thrown.
\<close>

datatype axios_result =
    Fulfilled CubeQueryResponse
  | AxiosError "axios_response option" string
  | OtherError caught

text \<open>
  What \<^verbatim>\<open>query\<close> throws: an \<^verbatim>\<open>Error\<close> it creates itself, with its message, or the
  caught object passed on unchanged.
\<close>

datatype thrown = Error string | Rethrown caught

text \<open>\<^verbatim>\<open>a || b\<close> where \<open>a\<close> is a string or undefined.\<close>

definition str_or :: "string option \<Rightarrow> string \<Rightarrow> string" where
  "str_or a b = (case a of None \<Rightarrow> b | Some s \<Rightarrow> if s = [] then b else s)"

text \<open>The catch block of \<^verbatim>\<open>query\<close>.\<close>

definition query_catch :: "axios_response option \<Rightarrow> string \<Rightarrow> thrown" where
  "query_catch response message =
     (if map_option status response = Some 401
      then Error ''Authentication failed. Please check your Bearer token.''
      else if map_option status response = Some 403
      then Error ''Access denied. Please check your permissions.''
      else if map_option status response = Some 400
      then Error (''Bad Request: '' @
             str_or (Option.bind response data_json)
               (str_or (map_option statusText response) message))
      else if map_option status response = Some 500
      then Error (''Server Error: '' @
             str_or (Option.bind response data_json)
               (str_or (map_option statusText response) message))
      else Error (''API Error: '' @ str_or (map_option statusText response) message))"

definition query_settle :: "axios_result \<Rightarrow> thrown + CubeQueryResponse" where
  "query_settle r =
     (case r of
        Fulfilled body \<Rightarrow> Inr body
      | AxiosError response message \<Rightarrow> Inl (query_catch response message)
      | OtherError e \<Rightarrow> Inl (Rethrown e))"

definition request_for :: "CubeApiService \<Rightarrow> CubeQuery \<Rightarrow> request" where
  "request_for this q =
     \<lparr>req_url = apiUrl this @ ''/load'', req_query = q, req_authorization = token this\<rparr>"

text \<open>The part of \<^verbatim>\<open>query\<close> before the request is made.\<close>

definition query_request :: "CubeApiService \<Rightarrow> CubeQuery \<Rightarrow> thrown + request" where
  "query_request this q =
     (if \<not> isConfigured this
      then Inl (Error ''Cube API not configured. Please set your endpoint and token.'')
      else Inr (request_for this q))"

text \<open>
  \<^verbatim>\<open>query\<close>, given the network as the function from a request to the way it ends.
  The result comes with the list of the requests made.
\<close>

definition query :: "CubeApiService \<Rightarrow> (request \<Rightarrow> axios_result) \<Rightarrow> CubeQuery
    \<Rightarrow> (thrown + CubeQueryResponse) \<times> request list" where
  "query this net q =
     (case query_request this q of
        Inl e \<Rightarrow> (Inl e, [])
      | Inr req \<Rightarrow> (query_settle (net req), [req]))"

definition no_query :: CubeQuery where
  "no_query = \<lparr>measures = None, dimensions = None, timeDimensions = None,
     q_filters = None, order = None, limit = None, offset = None\<rparr>"

text \<open>The queries of the dashboard; each method is \<^verbatim>\<open>this.query\<close> on one of them.\<close>

definition salesOverTime_query :: "CubeFilter list \<Rightarrow> string \<Rightarrow> CubeQuery" where
  "salesOverTime_query fs dr =
     no_query\<lparr>measures := Some [''customer_behavior.total_revenue''],
       timeDimensions := Some [\<lparr>dimension = ''customer_behavior.order_date'',
          granularity = Some ''month'', dateRange = Some (RangeName dr)\<rparr>],
       q_filters := Some fs\<rparr>"

definition salesByRegion_query :: "CubeFilter list \<Rightarrow> CubeQuery" where
  "salesByRegion_query fs =
     no_query\<lparr>measures := Some [''customer_behavior.total_revenue''],
       dimensions := Some [''customer_behavior.region''],
       timeDimensions := Some [\<lparr>dimension = ''customer_behavior.order_date'',
          granularity = Some ''month'', dateRange = Some (RangeName ''last 12 months'')\<rparr>],
       q_filters := Some fs\<rparr>"

definition customerSegmentRevenue_query :: "CubeFilter list \<Rightarrow> CubeQuery" where
  "customerSegmentRevenue_query fs =
     no_query\<lparr>measures := Some [''customer_behavior.total_revenue''],
       dimensions := Some [''customer_behavior.customers_segment''],
       q_filters := Some fs\<rparr>"

definition orderSizeDistribution_query :: "CubeFilter list \<Rightarrow> CubeQuery" where
  "orderSizeDistribution_query fs =
     no_query\<lparr>measures := Some [''customer_behavior.count'', ''customer_behavior.total_revenue''],
       dimensions := Some [''customer_behavior.order_size_category''],
       q_filters := Some fs\<rparr>"

definition topBrands_query :: "CubeFilter list \<Rightarrow> nat \<Rightarrow> CubeQuery" where
  "topBrands_query fs n =
     no_query\<lparr>measures := Some [''sales.total_sales_amount''],
       dimensions := Some [''sales.parts_brand''],
       q_filters := Some fs, limit := Some n\<rparr>"

definition orderStatusBreakdown_query :: "CubeFilter list \<Rightarrow> CubeQuery" where
  "orderStatusBreakdown_query fs =
     no_query\<lparr>measures := Some [''customer_behavior.count'', ''customer_behavior.total_revenue''],
       dimensions := Some [''customer_behavior.status''],
       q_filters := Some fs\<rparr>"

text \<open>The six queries of one load of the dashboard, in the order of the
  \<^verbatim>\<open>Promise.all\<close> array.\<close>

definition dashboard_queries :: "CubeFilter list \<Rightarrow> CubeQuery list" where
  "dashboard_queries fs =
     [salesOverTime_query fs ''last 12 months'', salesByRegion_query fs,
      customerSegmentRevenue_query fs, orderSizeDistribution_query fs,
      topBrands_query fs 10, orderStatusBreakdown_query fs]"


section \<open>The filter bar (FilterBar.tsx)\<close>

text \<open>
  \<^verbatim>\<open>JSON.stringify\<close> on a list of filters. A string is quoted; inside it the quote,
  the backslash and the control characters are escaped.
\<close>

definition hex_digit :: "nat \<Rightarrow> char" where
  "hex_digit n = ''0123456789abcdef'' ! (n mod 16)"

definition json_escape :: "char \<Rightarrow> string" where
  "json_escape c =
     (if c = CHR 0x22 then [CHR 0x5C, CHR 0x22]
      else if c = CHR 0x5C then [CHR 0x5C, CHR 0x5C]
      else if c = CHR 0x08 then [CHR 0x5C, CHR ''b'']
      else if c = CHR 0x09 then [CHR 0x5C, CHR ''t'']
      else if c = CHR 0x0A then [CHR 0x5C, CHR ''n'']
      else if c = CHR 0x0C then [CHR 0x5C, CHR ''f'']
      else if c = CHR 0x0D then [CHR 0x5C, CHR ''r'']
      else if (of_char c :: nat) < 32
      then [CHR 0x5C, CHR ''u'', CHR ''0'', CHR ''0'',
            hex_digit (of_char c div 16), hex_digit (of_char c)]
      else [c])"

definition json_string :: "string \<Rightarrow> string" where
  "json_string s = [CHR 0x22] @ concat (map json_escape s) @ [CHR 0x22]"

fun comma_separated :: "string list \<Rightarrow> string" where
  "comma_separated [] = []"
| "comma_separated [x] = x"
| "comma_separated (x # y # rest) = x @ '','' @ comma_separated (y # rest)"

definition json_filter :: "CubeFilter \<Rightarrow> string" where
  "json_filter f =
     ''{'' @ json_string ''member'' @ '':'' @ json_string (member f) @ '','' @
     json_string ''operator'' @ '':'' @ json_string (operator f) @ '','' @
     json_string ''values'' @ '':['' @ comma_separated (map json_string (values f)) @ '']}''"

definition JSON_stringify :: "CubeFilter list \<Rightarrow> string" where
  "JSON_stringify fs = ''['' @ comma_separated (map json_filter fs) @ '']''"

record FilterBar_state =
  selectedRegions :: "string list"
  selectedSegments :: "string list"
  prevFiltersRef :: string

definition FilterBar_initial :: FilterBar_state where
  "FilterBar_initial = \<lparr>selectedRegions = [], selectedSegments = [], prevFiltersRef = []\<rparr>"

text \<open>The filter list that \<^verbatim>\<open>updateFilters\<close> builds from the selection.\<close>

definition selection_filters :: "FilterBar_state \<Rightarrow> CubeFilter list" where
  "selection_filters bar =
     (if length (selectedRegions bar) > 0
      then [\<lparr>member = ''customer_behavior.region'', operator = ''equals'',
             values = selectedRegions bar\<rparr>]
      else []) @
     (if length (selectedSegments bar) > 0
      then [\<lparr>member = ''customer_behavior.customers_segment'', operator = ''equals'',
             values = selectedSegments bar\<rparr>]
      else [])"

text \<open>
  \<^verbatim>\<open>updateFilters\<close>: the new state of the component and the argument of the call
  of \<^verbatim>\<open>onFiltersChange\<close>, if it is called.
\<close>

definition updateFilters :: "FilterBar_state \<Rightarrow> FilterBar_state \<times> CubeFilter list option" where
  "updateFilters bar =
     (let fs = selection_filters bar;
          filtersString = JSON_stringify fs
      in if filtersString \<noteq> prevFiltersRef bar
         then (bar\<lparr>prevFiltersRef := filtersString\<rparr>, Some fs)
         else (bar, None))"

definition handleRegionChange :: "string list \<Rightarrow> FilterBar_state \<Rightarrow> FilterBar_state" where
  "handleRegionChange newValue bar =
     (if [] \<in> set newValue then bar\<lparr>selectedRegions := []\<rparr>
      else bar\<lparr>selectedRegions := newValue\<rparr>)"

definition handleSegmentChange :: "string list \<Rightarrow> FilterBar_state \<Rightarrow> FilterBar_state" where
  "handleSegmentChange newValue bar =
     (if [] \<in> set newValue then bar\<lparr>selectedSegments := []\<rparr>
      else bar\<lparr>selectedSegments := newValue\<rparr>)"

section \<open>The dashboard (Dashboard.tsx)\<close>

text \<open>
  \<^verbatim>\<open>Promise.all\<close> on promises given by the time at which each settles and its outcome:
  fulfilled with all the values when none is rejected, otherwise rejected with the
  reason of the rejection that comes first in time (the first position wins among equal
  times).
\<close>

fun first_rejection :: "(nat \<times> ('e + 'a)) list \<Rightarrow> (nat \<times> 'e) option" where
  "first_rejection [] = None"
| "first_rejection ((t, Inr v) # rest) = first_rejection rest"
| "first_rejection ((t, Inl e) # rest) =
     (case first_rejection rest of
        None \<Rightarrow> Some (t, e)
      | Some (t', e') \<Rightarrow> if t' < t then Some (t', e') else Some (t, e))"

fun fulfilled_values :: "(nat \<times> ('e + 'a)) list \<Rightarrow> 'a list" where
  "fulfilled_values [] = []"
| "fulfilled_values ((t, Inr v) # rest) = v # fulfilled_values rest"
| "fulfilled_values ((t, Inl e) # rest) = fulfilled_values rest"

definition promise_all :: "(nat \<times> ('e + 'a)) list \<Rightarrow> 'e + 'a list" where
  "promise_all ps =
     (case first_rejection ps of
        Some (t, e) \<Rightarrow> Inl e
      | None \<Rightarrow> Inr (fulfilled_values ps))"

text \<open>
  The component's state: the \<^verbatim>\<open>useState\<close> cells, the \<^verbatim>\<open>loadingRef\<close> cell, and
  two things the component does not store but its run consists of: \<open>awaiting\<close>, the
  filters captured by the call of \<^verbatim>\<open>loadDashboardData\<close> that is suspended at its
  \<^verbatim>\<open>await\<close> (if there is one), and \<open>sent\<close>, the requests made so far.
\<close>

record Dashboard_state =
  tabValue :: nat
  loading :: bool
  error :: "string option"
  filters :: "CubeFilter list"
  salesOverTime :: "ChartData option"
  salesByRegion :: "ChartData option"
  customerSegments :: "ChartData option"
  orderSizeDistribution :: "ChartData option"
  topBrands :: "ChartData option"
  orderStatus :: "ChartData option"
  loadingRef :: bool
  awaiting :: "CubeFilter list option"
  sent :: "request list"

definition Dashboard_initial :: Dashboard_state where
  "Dashboard_initial =
     \<lparr>tabValue = 0, loading = True, error = None, filters = [],
      salesOverTime = None, salesByRegion = None, customerSegments = None,
      orderSizeDistribution = None, topBrands = None, orderStatus = None,
      loadingRef = False, awaiting = None, sent = []\<rparr>"

text \<open>The requests that the six calls in the \<^verbatim>\<open>Promise.all\<close> array make.\<close>

definition dashboard_requests :: "CubeApiService \<Rightarrow> CubeFilter list \<Rightarrow> request list" where
  "dashboard_requests api fs =
     concat (map (\<lambda>q. case query_request api q of Inl e \<Rightarrow> [] | Inr req \<Rightarrow> [req])
                 (dashboard_queries fs))"

text \<open>
  \<^verbatim>\<open>loadDashboardData\<close> up to its \<^verbatim>\<open>await\<close>: the two early returns, or the start of
  a load with the filters of the current render.
\<close>

definition loadDashboardData :: "CubeApiService \<Rightarrow> Dashboard_state \<Rightarrow> Dashboard_state" where
  "loadDashboardData api s =
     (if loadingRef s then s
      else if \<not> isConfigured api
      then s\<lparr>error := Some ''Please configure your Cube API endpoint and token in the .env file.'',
             loading := False\<rparr>
      else s\<lparr>loadingRef := True, loading := True, error := None,
             awaiting := Some (filters s),
             sent := sent s @ dashboard_requests api (filters s)\<rparr>)"

text \<open>
  One of the six calls as a promise: the time at which the network answers its request
  and the outcome of \<^verbatim>\<open>query\<close>.
\<close>

definition fetch :: "CubeApiService \<Rightarrow> (request \<Rightarrow> nat \<times> axios_result) \<Rightarrow> CubeQuery
    \<Rightarrow> nat \<times> (thrown + CubeQueryResponse)" where
  "fetch api net q =
     (case query_request api q of
        Inl e \<Rightarrow> (0, Inl e)
      | Inr req \<Rightarrow> (fst (net req), fst (query api (\<lambda>r. snd (net r)) q)))"

text \<open>\<^verbatim>\<open>err instanceof Error ? err.message : 'Failed to load dashboard data'\<close>.\<close>

fun error_message :: "thrown \<Rightarrow> string" where
  "error_message (Error m) = m"
| "error_message (Rethrown (CaughtError m)) = m"
| "error_message (Rethrown CaughtOther) = ''Failed to load dashboard data''"

text \<open>
  The rest of \<^verbatim>\<open>loadDashboardData\<close>, run when the awaited \<^verbatim>\<open>Promise.all\<close> settles:
  the six setters, or the catch block, and then the finally block.
\<close>

definition loadDashboardData_resume :: "js_env \<Rightarrow> CubeApiService
    \<Rightarrow> (request \<Rightarrow> nat \<times> axios_result) \<Rightarrow> Dashboard_state \<Rightarrow> Dashboard_state" where
  "loadDashboardData_resume env api net s =
     (case awaiting s of
        None \<Rightarrow> s
      | Some fs \<Rightarrow>
          (case promise_all (map (fetch api net) (dashboard_queries fs)) of
             Inr [r1, r2, r3, r4, r5, r6] \<Rightarrow>
               s\<lparr>salesOverTime := Some (processSalesOverTimeData env r1),
                 salesByRegion := Some (processSalesByRegionData env r2),
                 customerSegments := Some (processCustomerSegmentsData env r3),
                 orderSizeDistribution := Some (processOrderSizeData env r4),
                 topBrands := Some (processTopBrandsData env r5),
                 orderStatus := Some (processOrderStatusData env r6)\<rparr>
           | Inr _ \<Rightarrow> s
           | Inl err \<Rightarrow> s\<lparr>error := Some (error_message err)\<rparr>)
          \<lparr>loadingRef := False, loading := False, awaiting := None\<rparr>)"

text \<open>
  \<^verbatim>\<open>handleFiltersChange\<close> and the effect that depends on \<^verbatim>\<open>filters\<close>: the filter bar
  always passes a new array, so the effect runs after every call.
\<close>

definition handleFiltersChange :: "CubeApiService \<Rightarrow> CubeFilter list
    \<Rightarrow> Dashboard_state \<Rightarrow> Dashboard_state" where
  "handleFiltersChange api newFilters s = loadDashboardData api (s\<lparr>filters := newFilters\<rparr>)"

text \<open>The component after it is mounted: the initial state and the first run of the effect.\<close>

definition Dashboard_mount :: "CubeApiService \<Rightarrow> Dashboard_state" where
  "Dashboard_mount api = loadDashboardData api Dashboard_initial"

datatype event =
    FiltersChange "CubeFilter list"
  | Refresh
  | Settled "request \<Rightarrow> nat \<times> axios_result"
  | TabChange nat

text \<open>The Refresh button is shown only without an error and is disabled while loading.\<close>

fun step :: "js_env \<Rightarrow> CubeApiService \<Rightarrow> Dashboard_state \<Rightarrow> event \<Rightarrow> Dashboard_state" where
  "step env api s (FiltersChange fs) = handleFiltersChange api fs s"
| "step env api s Refresh =
     (if loading s \<or> (case error s of None \<Rightarrow> False | Some e \<Rightarrow> e \<noteq> []) then s
      else loadDashboardData api s)"
| "step env api s (Settled net) = loadDashboardData_resume env api net s"
| "step env api s (TabChange n) = s\<lparr>tabValue := n\<rparr>"

definition run :: "js_env \<Rightarrow> CubeApiService \<Rightarrow> Dashboard_state \<Rightarrow> event list \<Rightarrow> Dashboard_state" where
  "run env api s evs = foldl (step env api) s evs"

text \<open>
  What the component renders: the error alert alone when \<^verbatim>\<open>error\<close> is a non-empty
  string, otherwise the charts of the selected tab, each with its title, its data and
  the loading flag.
\<close>

datatype view = ErrorAlert string | Charts bool "(string \<times> ChartData option) list"

definition tab_charts :: "Dashboard_state \<Rightarrow> (string \<times> ChartData option) list" where
  "tab_charts s =
     (if tabValue s = 0
      then [(''Revenue Over Time'', salesOverTime s),
            (''Revenue by Region (LTM)'', salesByRegion s)]
      else if tabValue s = 1
      then [(''Revenue by Region'', salesByRegion s),
            (''Order Size Distribution'', orderSizeDistribution s),
            (''Top Brands by Revenue'', topBrands s)]
      else if tabValue s = 2
      then [(''Customer Segments'', customerSegments s),
            (''Orders by Status'', orderStatus s)]
      else [])"

definition render :: "Dashboard_state \<Rightarrow> view" where
  "render s =
     (case error s of
        None \<Rightarrow> Charts (loading s) (tab_charts s)
      | Some e \<Rightarrow> if e \<noteq> [] then ErrorAlert e else Charts (loading s) (tab_charts s))"

subsection \<open>The filter bar inside the dashboard\<close>

text \<open>
  A change of the region or segment selection: the handler sets the selection, the
  effect on the selection runs \<^verbatim>\<open>updateFilters\<close>, and a call of
  \<^verbatim>\<open>onFiltersChange\<close> reaches \<^verbatim>\<open>handleFiltersChange\<close> of the dashboard.
\<close>

definition selection_effect :: "CubeApiService \<Rightarrow> FilterBar_state \<times> Dashboard_state
    \<Rightarrow> FilterBar_state \<times> Dashboard_state" where
  "selection_effect api p =
     (case updateFilters (fst p) of
        (bar', None) \<Rightarrow> (bar', snd p)
      | (bar', Some fs) \<Rightarrow> (bar', handleFiltersChange api fs (snd p)))"

definition region_change :: "CubeApiService \<Rightarrow> string list
    \<Rightarrow> FilterBar_state \<times> Dashboard_state \<Rightarrow> FilterBar_state \<times> Dashboard_state" where
  "region_change api newValue p = selection_effect api (handleRegionChange newValue (fst p), snd p)"

definition segment_change :: "CubeApiService \<Rightarrow> string list
    \<Rightarrow> FilterBar_state \<times> Dashboard_state \<Rightarrow> FilterBar_state \<times> Dashboard_state" where
  "segment_change api newValue p = selection_effect api (handleSegmentChange newValue (fst p), snd p)"

datatype selection_event = RegionChange "string list" | SegmentChange "string list"

text \<open>The handler of a selection event, and the event with the effect that follows it.\<close>

fun apply_selection :: "selection_event \<Rightarrow> FilterBar_state \<Rightarrow> FilterBar_state" where
  "apply_selection (RegionChange v) bar = handleRegionChange v bar"
| "apply_selection (SegmentChange v) bar = handleSegmentChange v bar"

fun selection_change :: "CubeApiService \<Rightarrow> selection_event
    \<Rightarrow> FilterBar_state \<times> Dashboard_state \<Rightarrow> FilterBar_state \<times> Dashboard_state" where
  "selection_change api (RegionChange v) p = region_change api v p"
| "selection_change api (SegmentChange v) p = segment_change api v p"


section \<open>Notions used in the statements\<close>

text \<open>The data series of a chart, one per dataset.\<close>

definition series :: "ChartData \<Rightarrow> jsval list list" where
  "series c = map ds_data (datasets c)"


text \<open>Sample inputs for the concrete instances below.\<close>

definition sample_env :: js_env where
  "sample_env =
     \<lparr>finiteToString = (\<lambda>r. ''1''),
      nativeText = (\<lambda>k. ''function '' @ k @ ''() { [native code] }''),
      toLocaleDateString = (\<lambda>v. ''Jan 2024'')\<rparr>"

definition response_with :: "CubeDataRow list \<Rightarrow> CubeQueryResponse" where
  "response_with rows =
     \<lparr>query_of = no_query, data = Some rows,
      annotation = \<lparr>ann_measures = [], ann_dimensions = [], ann_timeDimensions = []\<rparr>\<rparr>"

text \<open>The query and the rows of the region scenario, with the keys as the scenario writes
  them and with the keys that \<^verbatim>\<open>processSalesByRegionData\<close> reads.\<close>

definition scenario_query :: CubeQuery where
  "scenario_query =
     no_query\<lparr>measures := Some [''sales.total_sales_amount''],
              dimensions := Some [''sales.region'']\<rparr>"

definition scenario_rows :: "string \<Rightarrow> string \<Rightarrow> CubeDataRow list" where
  "scenario_rows region_key total_key =
     [[(region_key, JString ''AMERICA''), (total_key, JString ''100.50'')],
      [(region_key, JString ''EUROPE''), (total_key, JString ''200.25'')],
      [(region_key, JString ''AMERICA''), (total_key, JString ''50.00'')]]"

text \<open>
  The labels of the rows under an aggregate-by-label recipe are the property keys that
  the label field of the rows gives; their number is counted without repetition.
\<close>

definition row_labels :: "js_env \<Rightarrow> string \<Rightarrow> CubeDataRow list \<Rightarrow> string list" where
  "row_labels env k rows = map (\<lambda>row. js_String env (row_get row k)) rows"

definition distinct_labels :: "js_env \<Rightarrow> string \<Rightarrow> CubeDataRow list \<Rightarrow> nat" where
  "distinct_labels env k rows = length (remdups (row_labels env k rows))"

text \<open>
  The forms of the errors that \<^verbatim>\<open>query\<close> throws, as a caller can tell them apart
  from the thrown value alone: by the message of an \<^verbatim>\<open>Error\<close> (the two fixed
  messages, the three prefixes, the message of the configuration check); anything
  else is \<open>Other\<close>.
\<close>

datatype error_form =
    AuthenticationFailed | AccessDenied | BadRequest | ServerError | ApiError
  | NotConfigured | Other

fun form_of :: "thrown \<Rightarrow> error_form" where
  "form_of (Rethrown e) = Other"
| "form_of (Error m) =
     (if m = ''Authentication failed. Please check your Bearer token.'' then AuthenticationFailed
      else if m = ''Access denied. Please check your permissions.'' then AccessDenied
      else if prefix ''Bad Request: '' m then BadRequest
      else if prefix ''Server Error: '' m then ServerError
      else if prefix ''API Error: '' m then ApiError
      else if m = ''Cube API not configured. Please set your endpoint and token.''
      then NotConfigured
      else Other)"

text \<open>
  The failure taxonomy in the words of the specification, on the failures of a request:
  Unauthenticated (missing or invalid credential, status 401), Forbidden (credential
  valid but denied, 403), MalformedRequest (query rejected by remote validation, 400),
  RemoteFault (server-side failure, the statuses 500 to 599), TransportFailure (network
  or timeout: no response at all). The specification names no condition for the other
  statuses.
\<close>

datatype condition =
  Unauthenticated | Forbidden | MalformedRequest | RemoteFault | TransportFailure

definition spec_condition :: "axios_response option \<Rightarrow> condition option" where
  "spec_condition response =
     (case response of
        None \<Rightarrow> Some TransportFailure
      | Some r \<Rightarrow>
          if status r = 401 then Some Unauthenticated
          else if status r = 403 then Some Forbidden
          else if status r = 400 then Some MalformedRequest
          else if 500 \<le> status r \<and> status r < 600 then Some RemoteFault
          else None)"

definition sample_api :: CubeApiService where
  "sample_api =
     \<lparr>apiUrl = ''https://example.cubecloud.dev/cubejs-api/v1'', token = ''Bearer abc''\<rparr>"

text \<open>
  A network for the concrete runs below: every request is answered at time 1 with one
  row that names the first value of the first filter of its query (or \<^verbatim>\<open>ALL\<close>
  when the query has no filter); \<open>failing_network\<close> answers the query for the top
  brands with status 500 instead.
\<close>

definition filter_tag :: "request \<Rightarrow> string" where
  "filter_tag req =
     (case q_filters (req_query req) of
        Some (f # fs) \<Rightarrow> (case values f of v # vs \<Rightarrow> v | [] \<Rightarrow> ''ALL'')
      | _ \<Rightarrow> ''ALL'')"

definition tagged_response :: "string \<Rightarrow> CubeQueryResponse" where
  "tagged_response tag =
     response_with [[(''customer_behavior.region'', JString tag),
                     (''customer_behavior.total_revenue'', JString ''100.50'')]]"

definition sample_network :: "request \<Rightarrow> nat \<times> axios_result" where
  "sample_network req = (1, Fulfilled (tagged_response (filter_tag req)))"

definition failing_network :: "request \<Rightarrow> nat \<times> axios_result" where
  "failing_network req =
     (if dimensions (req_query req) = Some [''sales.parts_brand'']
      then (1, AxiosError (Some \<lparr>status = 500, statusText = ''Internal Server Error'',
                                 data_json = None\<rparr>)
                 ''Request failed with status code 500'')
      else sample_network req)"

definition region_filter :: "string \<Rightarrow> CubeFilter list" where
  "region_filter v =
     [\<lparr>member = ''customer_behavior.region'', operator = ''equals'', values = [v]\<rparr>]"

section \<open>Verified properties\<close>

section \<open>Properties of the normalizers\<close>

lemma no_rows_empty: "no_rows (response\<lparr>data := Some []\<rparr>)"
  by (simp add: no_rows_def)

lemmas normalizer_defs =
  processSalesOverTimeData_def processSalesByRegionData_def processCustomerSegmentsData_def
  processOrderSizeData_def processTopBrandsData_def processOrderStatusData_def
  revenue_dataset_def plain_dataset_def

text \<open>
  C6: on a response whose row sequence is empty, each of the six normalizers returns a
  chart with no labels and exactly one data series, which is present and empty. The
  normalizers are total functions: none of them throws.
\<close>

theorem C6_empty_response:
  "labels (processSalesOverTimeData env (response\<lparr>data := Some []\<rparr>)) = [] \<and>
   series (processSalesOverTimeData env (response\<lparr>data := Some []\<rparr>)) = [[]] \<and>
   labels (processSalesByRegionData env (response\<lparr>data := Some []\<rparr>)) = [] \<and>
   series (processSalesByRegionData env (response\<lparr>data := Some []\<rparr>)) = [[]] \<and>
   labels (processCustomerSegmentsData env (response\<lparr>data := Some []\<rparr>)) = [] \<and>
   series (processCustomerSegmentsData env (response\<lparr>data := Some []\<rparr>)) = [[]] \<and>
   labels (processOrderSizeData env (response\<lparr>data := Some []\<rparr>)) = [] \<and>
   series (processOrderSizeData env (response\<lparr>data := Some []\<rparr>)) = [[]] \<and>
   labels (processTopBrandsData env (response\<lparr>data := Some []\<rparr>)) = [] \<and>
   series (processTopBrandsData env (response\<lparr>data := Some []\<rparr>)) = [[]] \<and>
   labels (processOrderStatusData env (response\<lparr>data := Some []\<rparr>)) = [] \<and>
   series (processOrderStatusData env (response\<lparr>data := Some []\<rparr>)) = [[]]"
  by (simp add: no_rows_empty series_def normalizer_defs)



lemma parseFloat_undefined: "parseFloat ''undefined'' = NaN"
  by code_simp






lemma parseFloat_scenario:
  "parseFloat ''100.50'' = Finite (201 / 2)"
  "parseFloat ''200.25'' = Finite (801 / 4)"
  "parseFloat ''50.00'' = Finite 50"
  by code_simp+

lemma array_index_names:
  "array_index ''AMERICA'' = None" "array_index ''EUROPE'' = None"
  "array_index ''undefined'' = None"
  by code_simp+

lemmas region_defs =
  processSalesByRegionData_def add_region_row_def parse_field_def or_zero_def
  obj_get_def obj_set_def key_before_def row_get_def prototype_functions_def
  plain_dataset_def series_def Let_def


lemma some_rows_nonempty:
  "rows \<noteq> [] \<Longrightarrow> \<not> no_rows (response\<lparr>data := Some rows\<rparr>) \<and>
     rows_of (response\<lparr>data := Some rows\<rparr>) = rows"
  by (simp add: no_rows_def rows_of_def)

subsection \<open>Lengths of labels and series\<close>

lemma keys_obj_insert: "fst ` set (obj_insert k v obj) = insert k (fst ` set obj)"
  by (induction k v obj rule: obj_insert.induct) auto

lemma distinct_obj_insert:
  "k \<notin> fst ` set obj \<Longrightarrow> distinct (map fst obj) \<Longrightarrow> distinct (map fst (obj_insert k v obj))"
proof (induction k v obj rule: obj_insert.induct)
  case (1 k v)
  then show ?case by simp
next
  case (2 k v k' v' rest)
  then show ?case
    using keys_obj_insert[of k v rest] by auto
qed

lemma fst_update: "fst \<circ> (\<lambda>(k', v'). if k' = k then (k', v) else (k', v')) = fst"
  by (auto simp: fun_eq_iff)

lemma keys_obj_set:
  "fst ` set (obj_set obj k v) =
     (if k = ''__proto__'' then fst ` set obj else insert k (fst ` set obj))"
proof -
  have "fst ` set (map (\<lambda>(k', v'). if k' = k then (k', v) else (k', v')) obj) = fst ` set obj"
    by (simp add: image_comp fst_update)
  then show ?thesis
    by (auto simp: obj_set_def keys_obj_insert)
qed

lemma distinct_obj_set:
  "distinct (map fst obj) \<Longrightarrow> distinct (map fst (obj_set obj k v))"
  by (simp add: obj_set_def fst_update distinct_obj_insert)

lemma keys_add_region_row:
  "fst ` set (add_region_row env obj row) =
     fst ` set obj \<union> ({js_String env (row_get row ''customer_behavior.region'')} - {''__proto__''})"
  by (auto simp: add_region_row_def Let_def keys_obj_set)

lemma distinct_add_region_row:
  "distinct (map fst obj) \<Longrightarrow> distinct (map fst (add_region_row env obj row))"
  by (simp add: add_region_row_def Let_def distinct_obj_set)

lemma foldl_add_region_row:
  "distinct (map fst obj) \<Longrightarrow>
     distinct (map fst (foldl (add_region_row env) obj rows)) \<and>
     fst ` set (foldl (add_region_row env) obj rows) =
       fst ` set obj \<union> (set (row_labels env ''customer_behavior.region'' rows) - {''__proto__''})"
proof (induction rows arbitrary: obj)
  case Nil
  then show ?case by (simp add: row_labels_def)
next
  case (Cons row rows)
  from Cons.IH[OF distinct_add_region_row[OF Cons.prems, of env row]]
  show ?case
    by (auto simp: keys_add_region_row row_labels_def)
qed

lemma region_labels_count:
  "length (foldl (add_region_row env) [] rows) =
     card (set (row_labels env ''customer_behavior.region'' rows) - {''__proto__''})"
proof -
  let ?obj = "foldl (add_region_row env) [] rows"
  have d: "distinct (map fst ?obj)"
    and k: "fst ` set ?obj = set (row_labels env ''customer_behavior.region'' rows) - {''__proto__''}"
    using foldl_add_region_row[of "[]" env rows] by simp_all
  have "length ?obj = length (map fst ?obj)" by simp
  also have "\<dots> = card (set (map fst ?obj))" using distinct_card[OF d] by simp
  also have "\<dots> = card (set (row_labels env ''customer_behavior.region'' rows) - {''__proto__''})"
    using k by simp
  finally show ?thesis .
qed

text \<open>In every chart that a normalizer returns, each series is as long as the labels.\<close>

lemma series_as_long_as_labels:
  "c \<in> {processSalesOverTimeData env response, processSalesByRegionData env response,
         processCustomerSegmentsData env response, processOrderSizeData env response,
         processTopBrandsData env response, processOrderStatusData env response}
   \<Longrightarrow> ser \<in> set (series c) \<Longrightarrow> length ser = length (labels c)"
  by (auto simp: series_def normalizer_defs Let_def split: if_splits)

text \<open>The five normalizers without aggregation give N labels and N entries for N rows.\<close>

lemma per_row_lengths:
  assumes "data response = Some rows"
    and "c \<in> {processSalesOverTimeData env response,
         processCustomerSegmentsData env response, processOrderSizeData env response,
         processTopBrandsData env response, processOrderStatusData env response}"
  shows "length (labels c) = length rows \<and> map length (series c) = [length rows]"
  using assms
  by (auto simp: series_def normalizer_defs no_rows_def rows_of_def)

text \<open>\<^verbatim>\<open>processSalesByRegionData\<close> gives one label for each distinct label of the
  rows other than \<^verbatim>\<open>__proto__\<close>.\<close>

lemma region_lengths:
  assumes "data response = Some rows"
  shows "length (labels (processSalesByRegionData env response)) =
           card (set (row_labels env ''customer_behavior.region'' rows) - {''__proto__''})"
  using assms region_labels_count[of env rows]
  by (auto simp: processSalesByRegionData_def no_rows_def rows_of_def Let_def row_labels_def)

lemma region_lengths_plain:
  assumes "data response = Some rows"
    and "''__proto__'' \<notin> set (row_labels env ''customer_behavior.region'' rows)"
  shows "length (labels (processSalesByRegionData env response)) =
           distinct_labels env ''customer_behavior.region'' rows"
  using region_lengths[OF assms(1), of env] assms(2)
  by (simp add: distinct_labels_def length_remdups_card_conv)


text \<open>
  C3: every series is as long as the labels (\<open>series_as_long_as_labels\<close>), the
  normalizers without aggregation give N labels for N rows (\<open>per_row_lengths\<close>), and
  \<^verbatim>\<open>processSalesByRegionData\<close> gives one label per distinct label of the rows
  as long as none of them is \<^verbatim>\<open>__proto__\<close> (\<open>region_lengths_plain\<close>). A row
  with the label \<^verbatim>\<open>__proto__\<close> is lost: the read \<^verbatim>\<open>regionTotals[region]\<close> finds the prototype
  object, the branch with \<^verbatim>\<open>+=\<close> is taken, and the assignment creates no property.
  On the response with this one row the chart has no label, where the rows have one
  distinct label.
\<close>


theorem C3_proto_label_dropped:
  "labels (processSalesByRegionData env
      (response\<lparr>data := Some [[(''customer_behavior.region'', JString ''__proto__''),
                               (''customer_behavior.total_revenue'', JString ''100.50'')]]\<rparr>)) = [] \<and>
   series (processSalesByRegionData env
      (response\<lparr>data := Some [[(''customer_behavior.region'', JString ''__proto__''),
                               (''customer_behavior.total_revenue'', JString ''100.50'')]]\<rparr>)) = [[]] \<and>
   distinct_labels env ''customer_behavior.region''
      [[(''customer_behavior.region'', JString ''__proto__''),
        (''customer_behavior.total_revenue'', JString ''100.50'')]] = 1"
  by (simp add: no_rows_def rows_of_def region_defs distinct_labels_def row_labels_def)


text \<open>
  C8 (as amended): the three rows of the region scenario, under the keys that
  \<^verbatim>\<open>processSalesByRegionData\<close> reads (\<^verbatim>\<open>customer_behavior.region\<close> and
  \<^verbatim>\<open>customer_behavior.total_revenue\<close>), normalize to the labels AMERICA, EUROPE and
  the single series 150.50, 200.25.
\<close>


theorem C8_region_scenario:
  "labels (processSalesByRegionData env
      (response\<lparr>data := Some (scenario_rows ''customer_behavior.region''
                                 ''customer_behavior.total_revenue'')\<rparr>))
     = [JString ''AMERICA'', JString ''EUROPE''] \<and>
   series (processSalesByRegionData env
      (response\<lparr>data := Some (scenario_rows ''customer_behavior.region''
                                 ''customer_behavior.total_revenue'')\<rparr>))
     = [[JNumber (Finite (301 / 2)), JNumber (Finite (801 / 4))]]"
  by (simp add: some_rows_nonempty scenario_rows_def region_defs parseFloat_scenario
      array_index_names)


text \<open>
  C8 as stated fails: with the keys \<^verbatim>\<open>region\<close> and \<^verbatim>\<open>total\<close> of the scenario, and
  also with the keys \<^verbatim>\<open>sales.region\<close> and \<^verbatim>\<open>sales.total_sales_amount\<close> of its query,
  the normalizer finds neither field in any row and returns the one label
  \<^verbatim>\<open>undefined\<close> with the total 0.
\<close>

theorem C8_literal_keys_counterexample:
  "labels (processSalesByRegionData sample_env
      ((response_with (scenario_rows ''region'' ''total''))\<lparr>query_of := scenario_query\<rparr>))
     = [JString ''undefined''] \<and>
   series (processSalesByRegionData sample_env
      ((response_with (scenario_rows ''region'' ''total''))\<lparr>query_of := scenario_query\<rparr>))
     = [[JNumber (Finite 0)]] \<and>
   labels (processSalesByRegionData sample_env
      ((response_with (scenario_rows ''sales.region'' ''sales.total_sales_amount''))
         \<lparr>query_of := scenario_query\<rparr>))
     = [JString ''undefined''] \<and>
   series (processSalesByRegionData sample_env
      ((response_with (scenario_rows ''sales.region'' ''sales.total_sales_amount''))
         \<lparr>query_of := scenario_query\<rparr>))
     = [[JNumber (Finite 0)]]"
  by (simp add: response_with_def no_rows_def rows_of_def scenario_rows_def region_defs
      parseFloat_undefined array_index_names)

section \<open>Properties of the query client\<close>

lemma query_not_configured:
  "\<not> isConfigured this \<Longrightarrow>
     query this net q =
       (Inl (Error ''Cube API not configured. Please set your endpoint and token.''), [])"
  by (simp add: query_def query_request_def)

lemma query_configured:
  "isConfigured this \<Longrightarrow>
     query this net q = (query_settle (net (request_for this q)), [request_for this q])"
  by (simp add: query_def query_request_def)

lemma query_catch_not_the_configuration_error:
  "query_catch response message \<noteq>
     Error ''Cube API not configured. Please set your endpoint and token.''"
  by (simp add: query_catch_def)

lemma query_settle_not_the_configuration_error:
  "query_settle r \<noteq> Inl (Error ''Cube API not configured. Please set your endpoint and token.'')"
  by (cases r) (simp_all add: query_settle_def query_catch_not_the_configuration_error)



text \<open>
  C10: the client is configured exactly when the address and the token are both
  non-empty and neither is its placeholder; \<^verbatim>\<open>query\<close> throws the error of the
  configuration check exactly when it is not configured, and then makes no request
  (one request otherwise); a token left at the placeholder is treated like an empty
  one and like the token of a client built without a token in the environment.
\<close>

theorem C10_configured_predicate:
  "(isConfigured this \<longleftrightarrow>
      apiUrl this \<noteq> [] \<and> token this \<noteq> [] \<and>
      apiUrl this \<noteq> ''YOUR_CUBE_ENDPOINT_HERE'' \<and> token this \<noteq> ''YOUR_BEARER_TOKEN_HERE'')
   \<and> (fst (query this net q) =
          Inl (Error ''Cube API not configured. Please set your endpoint and token.'')
        \<longleftrightarrow> \<not> isConfigured this)
   \<and> length (snd (query this net q)) = (if isConfigured this then 1 else 0)
   \<and> query (setToken ''YOUR_BEARER_TOKEN_HERE'' this) net q = query (setToken [] this) net q
   \<and> query (setToken ''YOUR_BEARER_TOKEN_HERE'' this) net q
       = query (new_CubeApiService env_url None) net q
   \<and> snd (query (setToken ''YOUR_BEARER_TOKEN_HERE'' this) net q) = []"
proof -
  have a: "isConfigured this \<longleftrightarrow>
      apiUrl this \<noteq> [] \<and> token this \<noteq> [] \<and>
      apiUrl this \<noteq> ''YOUR_CUBE_ENDPOINT_HERE'' \<and> token this \<noteq> ''YOUR_BEARER_TOKEN_HERE''"
    by (auto simp: isConfigured_def)
  have b: "fst (query this net q) =
          Inl (Error ''Cube API not configured. Please set your endpoint and token.'')
        \<longleftrightarrow> \<not> isConfigured this"
    by (cases "isConfigured this")
       (simp_all add: query_not_configured query_configured query_settle_not_the_configuration_error)
  have c: "length (snd (query this net q)) = (if isConfigured this then 1 else 0)"
    by (simp add: query_not_configured query_configured)
  have d: "\<not> isConfigured (setToken ''YOUR_BEARER_TOKEN_HERE'' this)"
    "\<not> isConfigured (setToken [] this)"
    "\<not> isConfigured (new_CubeApiService env_url None)"
    by (simp_all add: isConfigured_def setToken_def new_CubeApiService_def CUBE_API_TOKEN_def
        env_or_def)
  show ?thesis
    using a b c
    by (simp add: query_not_configured[OF d(1)] query_not_configured[OF d(2)]
        query_not_configured[OF d(3)])
qed


lemma query_settle_Inr: "(query_settle r = Inr body) = (r = Fulfilled body)"
  by (cases r) (auto simp: query_settle_def)

lemma form_of_query_catch:
  "form_of (query_catch response message) =
     (if map_option status response = Some 401 then AuthenticationFailed
      else if map_option status response = Some 403 then AccessDenied
      else if map_option status response = Some 400 then BadRequest
      else if map_option status response = Some 500 then ServerError
      else ApiError)"
  by (simp add: query_catch_def)

text \<open>
  C4 (as amended): no failure is swallowed, since \<^verbatim>\<open>query\<close> returns a response only
  when it is configured and the request is fulfilled. An axios error is thrown as an
  \<^verbatim>\<open>Error\<close> whose message shows one of five forms that a caller can tell apart:
  status 401 (authentication failed), 403 (access denied), 400 (bad request), 500
  (server error), and one form for everything else, which takes every other status
  together with the failures that have no response, such as a network error or a
  timeout. Anything else that is caught is thrown again unchanged, and a call without
  configuration throws the error of the configuration check.
\<close>

theorem C4_error_forms:
  "(fst (query this net q) = Inr body \<longleftrightarrow>
      isConfigured this \<and>
      net (request_for this q) = Fulfilled body)
   \<and> query_settle (AxiosError response message) = Inl (query_catch response message)
   \<and> form_of (query_catch response message) =
       (if map_option status response = Some 401 then AuthenticationFailed
        else if map_option status response = Some 403 then AccessDenied
        else if map_option status response = Some 400 then BadRequest
        else if map_option status response = Some 500 then ServerError
        else ApiError)
   \<and> query_catch None message = Error (''API Error: '' @ message)
   \<and> query_settle (OtherError e) = Inl (Rethrown e)
   \<and> form_of (Rethrown e) = Other
   \<and> (\<not> isConfigured this \<longrightarrow>
        fst (query this net q) =
          Inl (Error ''Cube API not configured. Please set your endpoint and token.'') \<and>
        form_of (Error ''Cube API not configured. Please set your endpoint and token.'')
          = NotConfigured)"
proof -
  have a: "fst (query this net q) = Inr body \<longleftrightarrow>
      isConfigured this \<and>
      net (request_for this q) = Fulfilled body"
    by (cases "isConfigured this")
       (simp_all add: query_not_configured query_configured query_settle_Inr)
  have b: "query_catch None message = Error (''API Error: '' @ message)"
    by (simp add: query_catch_def str_or_def)
  show ?thesis
    using a b
    by (simp add: form_of_query_catch query_not_configured query_settle_def)
qed

theorem C4_error_forms_witness:
  "\<not> isConfigured (new_CubeApiService None None) \<and>
   fst (query (new_CubeApiService None None) (\<lambda>req. AxiosError None ''Network Error'')
          (salesByRegion_query []))
     = Inl (Error ''Cube API not configured. Please set your endpoint and token.'') \<and>
   form_of (query_catch (Some \<lparr>status = 401, statusText = ''Unauthorized'', data_json = None\<rparr>)
              ''Request failed with status code 401'') = AuthenticationFailed \<and>
   form_of (query_catch (Some \<lparr>status = 403, statusText = ''Forbidden'', data_json = None\<rparr>)
              ''Request failed with status code 403'') = AccessDenied \<and>
   form_of (query_catch None ''timeout of 5000ms exceeded'') = ApiError"
proof -
  have n: "\<not> isConfigured (new_CubeApiService None None)"
    by (simp add: isConfigured_def new_CubeApiService_def CUBE_API_URL_def env_or_def)
  have t: "form_of (query_catch None ''timeout of 5000ms exceeded'') = ApiError"
    using C4_error_forms[of "new_CubeApiService None None" _ _ _ None] by simp
  have u: "form_of (query_catch (Some \<lparr>status = 401, statusText = ''Unauthorized'',
              data_json = None\<rparr>) ''Request failed with status code 401'') = AuthenticationFailed"
    using C4_error_forms[of "new_CubeApiService None None" _ _ _
        "Some \<lparr>status = 401, statusText = ''Unauthorized'', data_json = None\<rparr>"]
    by simp
  have f: "form_of (query_catch (Some \<lparr>status = 403, statusText = ''Forbidden'',
              data_json = None\<rparr>) ''Request failed with status code 403'') = AccessDenied"
    using C4_error_forms[of "new_CubeApiService None None" _ _ _
        "Some \<lparr>status = 403, statusText = ''Forbidden'', data_json = None\<rparr>"]
    by simp
  from C4_error_forms[of "new_CubeApiService None None"
      "\<lambda>req. AxiosError None ''Network Error''" "salesByRegion_query []"] n
  have "fst (query (new_CubeApiService None None) (\<lambda>req. AxiosError None ''Network Error'')
          (salesByRegion_query []))
     = Inl (Error ''Cube API not configured. Please set your endpoint and token.'')"
    by blast
  with n t u f show ?thesis
    by blast
qed

text \<open>
  C4 as stated fails: a response with status 503, a server-side failure, is thrown in
  the same form as a failure without response, and with the same text it is thrown as
  the very same error, so that a caller cannot tell a RemoteFault of this kind from a
  TransportFailure; and a caught object that is not an axios error reaches the caller
  as it is, under none of the five conditions.
\<close>

theorem C4_status_503_counterexample:
  "fst (query sample_api
         (\<lambda>req. AxiosError (Some \<lparr>status = 503, statusText = ''Service Unavailable'',
                                   data_json = None\<rparr>)
                   ''Request failed with status code 503'')
         (salesByRegion_query []))
     = Inl (Error ''API Error: Service Unavailable'') \<and>
   fst (query sample_api (\<lambda>req. AxiosError None ''Service Unavailable'')
         (salesByRegion_query []))
     = Inl (Error ''API Error: Service Unavailable'') \<and>
   spec_condition (Some \<lparr>status = 503, statusText = ''Service Unavailable'',
                         data_json = None\<rparr>) = Some RemoteFault \<and>
   spec_condition None = Some TransportFailure \<and>
   fst (query sample_api (\<lambda>req. AxiosError None ''timeout of 5000ms exceeded'')
         (salesByRegion_query []))
     = Inl (Error ''API Error: timeout of 5000ms exceeded'') \<and>
   fst (query sample_api (\<lambda>req. OtherError (CaughtError ''Invalid URL''))
         (salesByRegion_query []))
     = Inl (Rethrown (CaughtError ''Invalid URL''))"
proof -
  have c: "isConfigured sample_api"
    by (simp add: isConfigured_def sample_api_def)
  show ?thesis
    by (simp add: query_configured[OF c] query_settle_def query_catch_def str_or_def
        spec_condition_def)
qed

section \<open>Properties of the filter bar and the dashboard\<close>

lemma updateFilters_prev:
  "prevFiltersRef (fst (updateFilters bar)) = JSON_stringify (selection_filters bar)"
  by (simp add: updateFilters_def Let_def)

lemma updateFilters_selection:
  "selection_filters (fst (updateFilters bar)) = selection_filters bar"
  by (simp add: updateFilters_def Let_def selection_filters_def)

lemma apply_selection_prev: "prevFiltersRef (apply_selection e bar) = prevFiltersRef bar"
  by (cases e) (simp_all add: handleRegionChange_def handleSegmentChange_def)

lemma updateFilters_unchanged:
  "JSON_stringify (selection_filters bar) = prevFiltersRef bar \<Longrightarrow> updateFilters bar = (bar, None)"
  by (simp add: updateFilters_def Let_def)

lemma selection_change_eq:
  "selection_change api e p = selection_effect api (apply_selection e (fst p), snd p)"
  by (cases e) (simp_all add: region_change_def segment_change_def)

lemma fst_selection_effect: "fst (selection_effect api p) = fst (updateFilters (fst p))"
  by (cases "updateFilters (fst p)") (auto simp: selection_effect_def split: option.splits)

lemma selection_after_change:
  "selection_filters (fst (selection_change api e p)) = selection_filters (apply_selection e (fst p))"
  by (simp add: selection_change_eq fst_selection_effect updateFilters_selection)

text \<open>
  C9: when two successive selection states give equal filter lists, the second run of
  \<^verbatim>\<open>updateFilters\<close> does not call \<^verbatim>\<open>onFiltersChange\<close> and the dashboard stays as
  it is, so that no load starts and no request is made. In general, when
  \<^verbatim>\<open>updateFilters\<close> does notify, it passes the list computed from the selection and
  records its string, and that list differs from the list whose string was recorded
  before, which is the list of the previous notification; when it does not notify, it
  leaves the record as it is.
\<close>

theorem C9_unchanged_filters_no_refresh:
  assumes "selection_filters (apply_selection e2 (fst (selection_change api e1 p)))
             = selection_filters (fst (selection_change api e1 p))"
  shows "snd (updateFilters (apply_selection e2 (fst (selection_change api e1 p)))) = None \<and>
         snd (selection_change api e2 (selection_change api e1 p))
           = snd (selection_change api e1 p) \<and>
         (snd (updateFilters bar) = Some fs \<longrightarrow>
           fs = selection_filters bar \<and>
           prevFiltersRef (fst (updateFilters bar)) = JSON_stringify fs \<and>
           (\<forall>previous. prevFiltersRef bar = JSON_stringify previous \<longrightarrow> fs \<noteq> previous)) \<and>
         (snd (updateFilters bar) = None \<longrightarrow> fst (updateFilters bar) = bar)"
proof -
  let ?p1 = "selection_change api e1 p"
  let ?bar2 = "apply_selection e2 (fst ?p1)"
  have "prevFiltersRef (fst ?p1) = JSON_stringify (selection_filters (fst ?p1))"
    by (simp add: selection_change_eq fst_selection_effect updateFilters_prev
        updateFilters_selection)
  then have "JSON_stringify (selection_filters ?bar2) = prevFiltersRef ?bar2"
    using assms by (simp add: apply_selection_prev)
  then have u: "updateFilters ?bar2 = (?bar2, None)"
    by (rule updateFilters_unchanged)
  then have "snd (updateFilters ?bar2) = None \<and> snd (selection_change api e2 ?p1) = snd ?p1"
    by (simp add: selection_change_eq[of api e2] selection_effect_def)
  moreover have "snd (updateFilters bar) = Some fs \<longrightarrow>
           fs = selection_filters bar \<and>
           prevFiltersRef (fst (updateFilters bar)) = JSON_stringify fs \<and>
           (\<forall>previous. prevFiltersRef bar = JSON_stringify previous \<longrightarrow> fs \<noteq> previous)"
    by (auto simp: updateFilters_def Let_def split: if_splits)
  moreover have "snd (updateFilters bar) = None \<longrightarrow> fst (updateFilters bar) = bar"
    by (auto simp: updateFilters_def Let_def split: if_splits)
  ultimately show ?thesis
    by blast
qed

lemma region_selected:
  "selection_filters (apply_selection (RegionChange [''AMERICA'']) FilterBar_initial)
     = region_filter ''AMERICA''"
  by (simp add: selection_filters_def handleRegionChange_def FilterBar_initial_def
      region_filter_def)

theorem C9_unchanged_filters_no_refresh_witness:
  "selection_filters (apply_selection (SegmentChange [[]])
      (fst (selection_change sample_api (RegionChange [''AMERICA''])
              (FilterBar_initial, Dashboard_mount sample_api))))
     = region_filter ''AMERICA'' \<and>
   selection_filters (fst (selection_change sample_api (RegionChange [''AMERICA''])
              (FilterBar_initial, Dashboard_mount sample_api)))
     = region_filter ''AMERICA'' \<and>
   snd (selection_change sample_api (SegmentChange [[]])
          (selection_change sample_api (RegionChange [''AMERICA''])
             (FilterBar_initial, Dashboard_mount sample_api)))
     = snd (selection_change sample_api (RegionChange [''AMERICA''])
             (FilterBar_initial, Dashboard_mount sample_api))"
proof -
  let ?p1 = "selection_change sample_api (RegionChange [''AMERICA''])
               (FilterBar_initial, Dashboard_mount sample_api)"
  have s1: "selection_filters (fst ?p1) = region_filter ''AMERICA''"
    by (simp only: selection_after_change fst_conv region_selected)
  have sel: "selectedRegions (fst ?p1) = [''AMERICA''] \<and> selectedSegments (fst ?p1) = []"
    by (simp add: region_change_def fst_selection_effect updateFilters_def Let_def
        handleRegionChange_def FilterBar_initial_def)
  have s2: "selection_filters (apply_selection (SegmentChange [[]]) (fst ?p1))
              = region_filter ''AMERICA''"
    using sel by (simp add: selection_filters_def handleSegmentChange_def region_filter_def)
  have h: "selection_filters (apply_selection (SegmentChange [[]]) (fst ?p1))
             = selection_filters (fst ?p1)"
    using s1 s2 by simp
  from C9_unchanged_filters_no_refresh[OF h]
  have "snd (selection_change sample_api (SegmentChange [[]]) ?p1) = snd ?p1"
    by blast
  with s1 s2 show ?thesis
    by blast
qed


subsection \<open>Loads of the dashboard\<close>



lemma dashboard_requests_configured:
  "isConfigured api \<Longrightarrow>
     dashboard_requests api fs = map (request_for api) (dashboard_queries fs)"
  by (simp add: dashboard_requests_def dashboard_queries_def query_request_def)

lemma fetch_configured:
  "isConfigured api \<Longrightarrow>
     fetch api net q = (fst (net (request_for api q)), query_settle (snd (net (request_for api q))))"
  by (simp add: fetch_def query_def query_request_def)


lemma first_rejection_single:
  "i < length ps \<Longrightarrow> ps ! i = (t, Inl e) \<Longrightarrow>
     \<forall>j<length ps. j \<noteq> i \<longrightarrow> (\<exists>v. snd (ps ! j) = Inr v) \<Longrightarrow>
     first_rejection ps = Some (t, e)"
proof (induction ps arbitrary: i)
  case Nil
  then show ?case by simp
next
  case (Cons p ps)
  show ?case
  proof (cases i)
    case 0
    have "\<forall>j<length ps. \<exists>v. snd (ps ! j) = Inr v"
      using Cons.prems(3) 0 by fastforce
    then have "first_rejection ps = None"
    proof (induction ps)
      case Nil
      then show ?case by simp
    next
      case (Cons q qs)
      from Cons.prems have "\<exists>v. snd q = Inr v" by fastforce
      moreover from Cons.prems have "\<forall>j<length qs. \<exists>v. snd (qs ! j) = Inr v" by fastforce
      ultimately show ?case using Cons.IH by (cases q) auto
    qed
    with 0 Cons.prems(2) show ?thesis by simp
  next
    case (Suc k)
    have "\<exists>v. snd p = Inr v"
      using Cons.prems(3) Suc by fastforce
    moreover have "first_rejection ps = Some (t, e)"
    proof (rule Cons.IH)
      show "k < length ps" using Cons.prems(1) Suc by simp
      show "ps ! k = (t, Inl e)" using Cons.prems(2) Suc by simp
      show "\<forall>j<length ps. j \<noteq> k \<longrightarrow> (\<exists>v. snd (ps ! j) = Inr v)"
      proof (intro allI impI)
        fix j assume "j < length ps" "j \<noteq> k"
        then have "Suc j < length (p # ps)" "Suc j \<noteq> i" using Suc by simp_all
        with Cons.prems(3) have "\<exists>v. snd ((p # ps) ! Suc j) = Inr v" by blast
        then show "\<exists>v. snd (ps ! j) = Inr v" by simp
      qed
    qed
    ultimately show ?thesis by (cases p) auto
  qed
qed

lemma resume_rejected:
  assumes "awaiting s = Some fs"
    and "first_rejection (map (fetch api net) (dashboard_queries fs)) = Some (t, e)"
  shows "loadDashboardData_resume env api net s =
           s\<lparr>error := Some (error_message e), loadingRef := False, loading := False,
             awaiting := None\<rparr>"
  using assms by (simp add: loadDashboardData_resume_def promise_all_def)




lemma settle_one_failure:
  assumes "isConfigured api" and "awaiting s = Some fs" and "i < 6"
    and "query_settle (snd (net (dashboard_requests api fs ! i))) = Inl e"
    and "\<forall>j<6. j \<noteq> i \<longrightarrow> (\<exists>body. snd (net (dashboard_requests api fs ! j)) = Fulfilled body)"
  shows "step env api s (Settled net) =
           s\<lparr>error := Some (error_message e), loadingRef := False, loading := False,
             awaiting := None\<rparr>"
proof -
  let ?ps = "map (fetch api net) (dashboard_queries fs)"
  have len: "length (dashboard_queries fs) = 6"
    by (simp add: dashboard_queries_def)
  have nth: "?ps ! j = (fst (net (dashboard_requests api fs ! j)),
                        query_settle (snd (net (dashboard_requests api fs ! j))))"
    if "j < 6" for j
    using that len assms(1) by (simp add: dashboard_requests_configured fetch_configured)
  have "first_rejection ?ps = Some (fst (net (dashboard_requests api fs ! i)), e)"
  proof (rule first_rejection_single)
    show "i < length ?ps" using assms(3) len by simp
    show "?ps ! i = (fst (net (dashboard_requests api fs ! i)), Inl e)"
      using nth[OF assms(3)] assms(4) by simp
    show "\<forall>j<length ?ps. j \<noteq> i \<longrightarrow> (\<exists>v. snd (?ps ! j) = Inr v)"
    proof (intro allI impI)
      fix j assume j: "j < length ?ps" "j \<noteq> i"
      then have j6: "j < 6" using len by simp
      with assms(5) j(2) obtain body
        where "snd (net (dashboard_requests api fs ! j)) = Fulfilled body" by blast
      then show "\<exists>v. snd (?ps ! j) = Inr v"
        using nth[OF j6] by (simp add: query_settle_def)
    qed
  qed
  then show ?thesis
    using resume_rejected[OF assms(2)] by simp
qed

lemma sample_api_configured: "isConfigured sample_api"
  by (simp add: isConfigured_def sample_api_def)

lemma mount_configured:
  "isConfigured api \<Longrightarrow>
     Dashboard_mount api =
       Dashboard_initial\<lparr>loadingRef := True, loading := True, error := None,
         awaiting := Some [], sent := dashboard_requests api []\<rparr>"
  by (simp add: Dashboard_mount_def loadDashboardData_def Dashboard_initial_def)









lemma query_catch_message: "\<exists>m. query_catch response message = Error m \<and> m \<noteq> []"
  by (simp add: query_catch_def)

text \<open>
  C2 (as amended): when one of the six fetches of a load fails and the other five are
  fulfilled, the load fails as a whole: none of the six chart states changes, the
  results of the five are dropped, the error of the dashboard is set to the message of
  the failure, the loading flags are cleared, and what is rendered is the error alert
  in place of all the charts (unless the message is empty).
\<close>

theorem C2_one_failure_fails_the_cycle:
  assumes "isConfigured api" and "awaiting s = Some fs" and "i < 6"
    and "query_settle (snd (net (dashboard_requests api fs ! i))) = Inl e"
    and "\<forall>j<6. j \<noteq> i \<longrightarrow> (\<exists>body. snd (net (dashboard_requests api fs ! j)) = Fulfilled body)"
  shows "error (step env api s (Settled net)) = Some (error_message e) \<and>
         salesOverTime (step env api s (Settled net)) = salesOverTime s \<and>
         salesByRegion (step env api s (Settled net)) = salesByRegion s \<and>
         customerSegments (step env api s (Settled net)) = customerSegments s \<and>
         orderSizeDistribution (step env api s (Settled net)) = orderSizeDistribution s \<and>
         topBrands (step env api s (Settled net)) = topBrands s \<and>
         orderStatus (step env api s (Settled net)) = orderStatus s \<and>
         loading (step env api s (Settled net)) = False \<and>
         loadingRef (step env api s (Settled net)) = False \<and>
         awaiting (step env api s (Settled net)) = None \<and>
         render (step env api s (Settled net)) =
           (if error_message e = [] then Charts False (tab_charts s)
            else ErrorAlert (error_message e))"
  unfolding settle_one_failure[OF assms]
  by (simp add: render_def tab_charts_def)

lemma failing_network_answers:
  "map failing_network (dashboard_requests sample_api []) =
     [(1, Fulfilled (tagged_response ''ALL'')),
      (1, Fulfilled (tagged_response ''ALL'')),
      (1, Fulfilled (tagged_response ''ALL'')),
      (1, Fulfilled (tagged_response ''ALL'')),
      (1, AxiosError (Some \<lparr>status = 500, statusText = ''Internal Server Error'',
                             data_json = None\<rparr>) ''Request failed with status code 500''),
      (1, Fulfilled (tagged_response ''ALL''))]"
  by (simp add: dashboard_requests_configured[OF sample_api_configured] dashboard_queries_def
      failing_network_def sample_network_def filter_tag_def request_for_def salesOverTime_query_def
      salesByRegion_query_def customerSegmentRevenue_query_def orderSizeDistribution_query_def
      topBrands_query_def orderStatusBreakdown_query_def no_query_def)

lemma failing_network_nth:
  "snd (failing_network (dashboard_requests sample_api [] ! 4)) =
     AxiosError (Some \<lparr>status = 500, statusText = ''Internal Server Error'',
                       data_json = None\<rparr>) ''Request failed with status code 500''"
  "\<forall>j<6. j \<noteq> 4 \<longrightarrow>
     (\<exists>body. snd (failing_network (dashboard_requests sample_api [] ! j)) = Fulfilled body)"
proof -
  have len: "length (dashboard_requests sample_api []) = 6"
    by (simp add: dashboard_requests_configured[OF sample_api_configured] dashboard_queries_def)
  have nth: "failing_network (dashboard_requests sample_api [] ! j) =
               map failing_network (dashboard_requests sample_api []) ! j" if "j < 6" for j
    using that len by simp
  show "snd (failing_network (dashboard_requests sample_api [] ! 4)) =
     AxiosError (Some \<lparr>status = 500, statusText = ''Internal Server Error'',
                       data_json = None\<rparr>) ''Request failed with status code 500''"
    by (simp add: nth failing_network_answers)
  show "\<forall>j<6. j \<noteq> 4 \<longrightarrow>
     (\<exists>body. snd (failing_network (dashboard_requests sample_api [] ! j)) = Fulfilled body)"
  proof (intro allI impI)
    fix j :: nat assume "j < 6" "j \<noteq> 4"
    then consider "j = 0" | "j = 1" | "j = 2" | "j = 3" | "j = 5" by linarith
    then show "\<exists>body. snd (failing_network (dashboard_requests sample_api [] ! j)) = Fulfilled body"
      by cases (simp_all add: nth failing_network_answers)
  qed
qed

lemma server_error_message:
  "query_settle (AxiosError (Some \<lparr>status = 500, statusText = ''Internal Server Error'',
       data_json = None\<rparr>) ''Request failed with status code 500'')
     = Inl (Error ''Server Error: Internal Server Error'')"
  by (simp add: query_settle_def query_catch_def str_or_def)

theorem C2_one_failure_fails_the_cycle_witness:
  "isConfigured sample_api \<and> awaiting (Dashboard_mount sample_api) = Some [] \<and>
   query_settle (snd (failing_network (dashboard_requests sample_api [] ! 4)))
     = Inl (Error ''Server Error: Internal Server Error'') \<and>
   error (step sample_env sample_api (Dashboard_mount sample_api) (Settled failing_network))
     = Some ''Server Error: Internal Server Error'' \<and>
   salesByRegion (step sample_env sample_api (Dashboard_mount sample_api) (Settled failing_network))
     = None"
proof -
  have a: "awaiting (Dashboard_mount sample_api) = Some []"
    by (simp add: mount_configured[OF sample_api_configured])
  have q: "query_settle (snd (failing_network (dashboard_requests sample_api [] ! 4)))
     = Inl (Error ''Server Error: Internal Server Error'')"
    by (simp add: failing_network_nth(1) server_error_message)
  have i: "(4::nat) < 6" by simp
  from C2_one_failure_fails_the_cycle[OF sample_api_configured a i q failing_network_nth(2),
      of sample_env]
  have "error (step sample_env sample_api (Dashboard_mount sample_api) (Settled failing_network))
          = Some ''Server Error: Internal Server Error'' \<and>
        salesByRegion (step sample_env sample_api (Dashboard_mount sample_api)
          (Settled failing_network)) = salesByRegion (Dashboard_mount sample_api)"
    by (simp del: step.simps)
  then show ?thesis
    using a q by (simp add: sample_api_configured mount_configured Dashboard_initial_def)
qed

text \<open>
  C2 as stated fails: in the first load of the mounted dashboard the fetch for the top
  brands gets status 500 while the fetch for the regions is fulfilled. After the load
  the chart states of the regions and of the sales over time are still empty, the
  dashboard carries the error, and it renders the error alert alone.
\<close>

theorem C2_sibling_results_counterexample:
  "snd (fetch sample_api failing_network (salesByRegion_query [])) = Inr (tagged_response ''ALL'') \<and>
   snd (fetch sample_api failing_network (topBrands_query [] 10))
     = Inl (Error ''Server Error: Internal Server Error'') \<and>
   salesByRegion (run sample_env sample_api (Dashboard_mount sample_api) [Settled failing_network])
     = None \<and>
   salesOverTime (run sample_env sample_api (Dashboard_mount sample_api) [Settled failing_network])
     = None \<and>
   error (run sample_env sample_api (Dashboard_mount sample_api) [Settled failing_network])
     = Some ''Server Error: Internal Server Error'' \<and>
   render (run sample_env sample_api (Dashboard_mount sample_api) [Settled failing_network])
     = ErrorAlert ''Server Error: Internal Server Error''"
proof -
  have a: "awaiting (Dashboard_mount sample_api) = Some []"
    by (simp add: mount_configured[OF sample_api_configured])
  have q: "query_settle (snd (failing_network (dashboard_requests sample_api [] ! 4)))
     = Inl (Error ''Server Error: Internal Server Error'')"
    by (simp add: failing_network_nth(1) server_error_message)
  have i: "(4::nat) < 6" by simp
  note s = settle_one_failure[OF sample_api_configured a i q failing_network_nth(2), of sample_env]
  have f1: "snd (fetch sample_api failing_network (salesByRegion_query []))
              = Inr (tagged_response ''ALL'')"
    by (simp add: fetch_configured[OF sample_api_configured] failing_network_def
        sample_network_def query_settle_def filter_tag_def request_for_def
        salesByRegion_query_def no_query_def)
  have f2: "snd (fetch sample_api failing_network (topBrands_query [] 10))
              = Inl (Error ''Server Error: Internal Server Error'')"
    by (simp add: fetch_configured[OF sample_api_configured] failing_network_def
        server_error_message request_for_def topBrands_query_def no_query_def)
  show ?thesis
    using f1 f2
    unfolding run_def foldl.simps s
    by (simp add: render_def mount_configured[OF sample_api_configured] Dashboard_initial_def)
qed

end
